theory Spec2Isabelle
  imports Complex_Main "HOL-Library.Sublist"
begin

section \<open>Data model of the backtester\<close>

text \<open>
  The numeric columns of the pandas frames (\<open>cost\<close>, \<open>qty\<close>, \<open>strike\<close>, the capital) are
  modelled as real numbers: the arithmetic of \<open>backtester.py\<close> is followed exactly, the
  rounding of binary floating point is not. A date is a day number, so that dates are
  ordered. A frame is the list of its rows, in row order.
\<close>

datatype error = AssertionError | AttributeError | KeyError | IndexError | ValueError

type_synonym date = nat

text \<open>The seven per-leg columns that \<open>Backtest.run\<close> gives every leg (lines 52-54).\<close>

record leg =
  leg_contract :: string
  leg_underlying :: string
  leg_expiration :: date
  leg_type :: string
  leg_strike :: real
  leg_cost :: real
  leg_order :: string

text \<open>
  The \<open>totals\<close> block: \<open>cost\<close>, \<open>qty\<close>, \<open>date\<close> (line 55) and the \<open>capital\<close> column that
  \<open>summary\<close> adds later (lines 104-106); \<open>None\<close> while the column does not exist.
\<close>

record totals_block =
  totals_cost :: real
  totals_qty :: real
  totals_date :: date
  totals_capital :: "real option"

text \<open>One row of a frame of orders: the legs by leg name, and the totals.\<close>

record order_row =
  legs :: "(string \<times> leg) list"
  totals :: totals_block

text \<open>The triple returned by \<open>Strategy.filter_exits\<close>: exits, exits mask, total costs.\<close>

type_synonym exit_signals = "order_row list \<times> bool list \<times> real list"

text \<open>
  The two collaborators are not part of \<open>backtester.py\<close>; the engine uses the fields and
  the two filter operations below, which are therefore parameters of the model. The
  snapshot of a period (\<open>options\<close>) is of an arbitrary type \<open>'o\<close>.
\<close>

record 'o strategy =
  strat_schema :: string
  strat_legs :: "string list"
  initial_capital :: real
  filter_entries :: "'o \<Rightarrow> order_row list \<Rightarrow> date \<Rightarrow> order_row list"
  filter_exits :: "'o \<Rightarrow> order_row list \<Rightarrow> date \<Rightarrow> exit_signals"

record 'o historical_options_data =
  data_schema :: string
  iter_dates :: "(date \<times> 'o) list"
  iter_months :: "(date \<times> 'o) list"

text \<open>
  The fields of a \<open>Backtest\<close> object. \<open>trade_log\<close> and \<open>current_capital\<close> are not set by
  \<open>__init__\<close>: they are \<open>None\<close> until \<open>run\<close>, respectively the \<open>strategy\<close> setter, creates
  them, and reading them before that raises \<open>AttributeError\<close>.
\<close>

record 'o backtest =
  bt_strategy :: "'o strategy option"
  bt_data :: "'o historical_options_data option"
  inventory :: "order_row list"
  trade_log :: "order_row list option"
  current_capital :: "real option"
  stop_if_broke :: bool

section \<open>The execution engine\<close>

text \<open>\<open>Backtest.__init__\<close> (lines 13-17).\<close>

definition Backtest_init :: "'o backtest" where
  "Backtest_init =
     \<lparr>bt_strategy = None, bt_data = None, inventory = [], trade_log = None,
      current_capital = None, stop_if_broke = True\<rparr>"

text \<open>The \<open>strategy\<close> setter (lines 23-27) and the \<open>data\<close> setter (lines 33-36).\<close>

definition set_strategy :: "'o backtest \<Rightarrow> 'o strategy \<Rightarrow> 'o backtest" where
  "set_strategy bt strat =
     bt\<lparr>bt_strategy := Some strat, current_capital := Some (initial_capital strat)\<rparr>"

definition set_data :: "'o backtest \<Rightarrow> 'o historical_options_data \<Rightarrow> 'o backtest" where
  "set_data bt d = bt\<lparr>bt_data := Some d\<rparr>"

text \<open>The expression \<open>row['totals']['cost'] * row['totals']['qty']\<close>.\<close>

definition order_price :: "order_row \<Rightarrow> real" where
  "order_price r = totals_cost (totals r) * totals_qty (totals r)"

text \<open>
  \<open>_process_entry_signals\<close> (lines 90-99): the first row of a non-empty frame together
  with its price, otherwise the empty frame itself and \<open>0\<close>. The selected entry is returned
  as a frame of at most one row.
\<close>

definition process_entry_signals :: "order_row list \<Rightarrow> order_row list \<times> real" where
  "process_entry_signals entry_signals =
     (case entry_signals of
        [] \<Rightarrow> (entry_signals, 0)
      | entry # _ \<Rightarrow> ([entry], order_price entry))"

text \<open>
  \<open>_execute_entry\<close> (lines 73-80). The condition is Python's short-circuit \<open>or\<close>: the
  capital is only compared when \<open>stop_if_broke\<close> is set.
\<close>

definition execute_entry :: "'o backtest \<Rightarrow> order_row list \<Rightarrow> error + 'o backtest" where
  "execute_entry bt entry_signals =
     (let (entry, total_price) = process_entry_signals entry_signals in
      case current_capital bt of
        None \<Rightarrow> Inl AttributeError
      | Some capital \<Rightarrow>
          if \<not> stop_if_broke bt \<or> capital \<ge> total_price then
            (case trade_log bt of
               None \<Rightarrow> Inl AttributeError
             | Some tlog \<Rightarrow>
                 Inr (bt\<lparr>inventory := inventory bt @ entry,
                         trade_log := Some (tlog @ entry),
                         current_capital := Some (capital - total_price)\<rparr>))
          else Inr bt)"

text \<open>
  \<open>self.inventory.drop(self.inventory[exits_mask].index, inplace=True)\<close>: the rows
  selected by the boolean mask (a boolean array or Series over the rows of the inventory)
  are removed. pandas refuses a mask whose length is not the number of rows.
\<close>

definition drop_masked :: "order_row list \<Rightarrow> bool list \<Rightarrow> error + order_row list" where
  "drop_masked rows exits_mask =
     (if length exits_mask \<noteq> length rows then Inl ValueError
      else Inr (map fst (filter (\<lambda>(r, m). \<not> m) (zip rows exits_mask))))"

text \<open>\<open>_execute_exit\<close> (lines 82-88).\<close>

definition execute_exit :: "'o backtest \<Rightarrow> exit_signals \<Rightarrow> error + 'o backtest" where
  "execute_exit bt exit_signals =
     (let (exits, exits_mask, total_costs) = exit_signals in
      case trade_log bt of
        None \<Rightarrow> Inl AttributeError
      | Some tlog \<Rightarrow>
          (case drop_masked (inventory bt) exits_mask of
             Inl e \<Rightarrow> Inl e
           | Inr kept \<Rightarrow>
               (case current_capital bt of
                  None \<Rightarrow> Inl AttributeError
                | Some capital \<Rightarrow>
                    Inr (bt\<lparr>trade_log := Some (tlog @ exits),
                            inventory := kept,
                            current_capital := Some (capital - sum_list total_costs)\<rparr>))))"

text \<open>
  The body of the loop of \<open>run\<close> (lines 62-67) for one period: both filters see the
  inventory as it is before the period's exits; exits are executed, then the entry.
\<close>

definition run_period :: "'o backtest \<Rightarrow> date \<times> 'o \<Rightarrow> error + 'o backtest" where
  "run_period bt period =
     (let (date, options) = period in
      case bt_strategy bt of
        None \<Rightarrow> Inl AttributeError
      | Some strat \<Rightarrow>
          (let entry_signals = filter_entries strat options (inventory bt) date;
               exit_signals = filter_exits strat options (inventory bt) date
           in case execute_exit bt exit_signals of
                Inl e \<Rightarrow> Inl e
              | Inr bt1 \<Rightarrow> execute_entry bt1 entry_signals))"

text \<open>The \<open>for\<close> loop of \<open>run\<close>; an exception ends the run.\<close>

fun run_loop :: "'o backtest \<Rightarrow> (date \<times> 'o) list \<Rightarrow> error + 'o backtest" where
  "run_loop bt [] = Inr bt"
| "run_loop bt (period # periods) =
     (case run_period bt period of
        Inl e \<Rightarrow> Inl e
      | Inr bt' \<Rightarrow> run_loop bt' periods)"

text \<open>
  Lines 52-57 of \<open>run\<close>: a new empty inventory (with the columns of the strategy's legs)
  and a new empty trade log. Nothing else is assigned here.
\<close>

definition run_reset :: "'o backtest \<Rightarrow> 'o backtest" where
  "run_reset bt = bt\<lparr>inventory := [], trade_log := Some []\<rparr>"

text \<open>
  \<open>run\<close> (lines 38-71). The three assertions, the reset, the loop. The returned frame is
  the \<open>trade_log\<close> of the returned object state.
\<close>

definition run :: "'o backtest \<Rightarrow> bool \<Rightarrow> error + 'o backtest" where
  "run bt monthly =
     (case bt_data bt of
        None \<Rightarrow> Inl AssertionError
      | Some d \<Rightarrow>
          (case bt_strategy bt of
             None \<Rightarrow> Inl AssertionError
           | Some strat \<Rightarrow>
               if data_schema d \<noteq> strat_schema strat then Inl AssertionError
               else run_loop (run_reset bt) (if monthly then iter_months d else iter_dates d)))"

text \<open>The sum of \<open>cost * qty\<close> over the rows of a frame.\<close>

definition log_total :: "order_row list \<Rightarrow> real" where
  "log_total rows = sum_list (map order_price rows)"

section \<open>The summary statistics\<close>

text \<open>
  numpy and pandas do not raise on a division by zero: the quotient is \<open>inf\<close>, \<open>-inf\<close> or
  \<open>nan\<close> (with a warning). The statistics that come out of a division are therefore values
  of \<open>npfloat\<close>; the finite ones carry the exact quotient.
\<close>

datatype npfloat = Finite real | PosInf | NegInf | NaN

text \<open>\<open>a / b\<close> for two finite numbers.\<close>

definition np_div :: "real \<Rightarrow> real \<Rightarrow> npfloat" where
  "np_div a b =
     (if b = 0 then (if a = 0 then NaN else if a > 0 then PosInf else NegInf)
      else Finite (a / b))"

text \<open>\<open>x + k\<close> and \<open>x * k\<close> for a finite constant \<open>k\<close>.\<close>

fun np_add :: "npfloat \<Rightarrow> real \<Rightarrow> npfloat" where
  "np_add (Finite x) k = Finite (x + k)"
| "np_add x k = x"

fun np_mul :: "npfloat \<Rightarrow> real \<Rightarrow> npfloat" where
  "np_mul (Finite x) k = Finite (x * k)"
| "np_mul NaN k = NaN"
| "np_mul PosInf k = (if k > 0 then PosInf else if k < 0 then NegInf else NaN)"
| "np_mul NegInf k = (if k > 0 then NegInf else if k < 0 then PosInf else NaN)"

fun is_nan :: "npfloat \<Rightarrow> bool" where
  "is_nan NaN = True"
| "is_nan x = False"

fun finite_value :: "npfloat \<Rightarrow> real" where
  "finite_value (Finite x) = x"
| "finite_value x = 0"

text \<open>
  \<open>np.mean\<close> of a pandas Series is the Series' own \<open>mean\<close>, which skips the \<open>nan\<close> entries
  (\<open>skipna=True\<close>): the sum of the others divided by their number, \<open>nan\<close> when there is none.
\<close>

definition series_mean :: "npfloat list \<Rightarrow> npfloat" where
  "series_mean xs =
     (let ys = filter (\<lambda>x. \<not> is_nan x) xs in
      if ys = [] then NaN
      else if PosInf \<in> set ys \<and> NegInf \<in> set ys then NaN
      else if PosInf \<in> set ys then PosInf
      else if NegInf \<in> set ys then NegInf
      else Finite (sum_list (map finite_value ys) / real (length ys)))"

text \<open>\<open>Series.cumsum\<close>: the running sums.\<close>

fun cumsum_from :: "real \<Rightarrow> real list \<Rightarrow> real list" where
  "cumsum_from acc [] = []"
| "cumsum_from acc (x # xs) = (acc + x) # cumsum_from (acc + x) xs"

definition cumsum :: "real list \<Rightarrow> real list" where
  "cumsum xs = cumsum_from 0 xs"

text \<open>
  Lines 104-106: the capital column,
  \<open>(-df['totals']['cost'] * df['totals']['qty']).cumsum() + initial_capital\<close>.
\<close>

definition capital_series :: "real \<Rightarrow> order_row list \<Rightarrow> real list" where
  "capital_series init df =
     map (\<lambda>s. s + init)
       (cumsum (map (\<lambda>r. - totals_cost (totals r) * totals_qty (totals r)) df))"

text \<open>Writing one value of the new \<open>('totals', 'capital')\<close> column into a row.\<close>

definition set_capital :: "order_row \<Rightarrow> real \<Rightarrow> order_row" where
  "set_capital r c = r\<lparr>totals := (totals r)\<lparr>totals_capital := Some c\<rparr>\<rparr>"

text \<open>
  Lines 108-109: \<open>groupby(('totals', 'date'))\<close> visits the dates in increasing order, and
  \<open>tail(1)\<close> takes the capital of the last row of each date. \<open>capital\<close> is the capital
  column of \<open>df\<close>, row by row.
\<close>

definition daily_capital :: "order_row list \<Rightarrow> real list \<Rightarrow> real list" where
  "daily_capital df capital =
     map (\<lambda>d. snd (last (filter (\<lambda>(r, c). totals_date (totals r) = d) (zip df capital))))
       (sort (remdups (map (\<lambda>r. totals_date (totals r)) df)))"

text \<open>
  \<open>Series.pct_change\<close>: \<open>nan\<close> for the first observation, then \<open>x\<^sub>t / x\<^sub>t\<^sub>-\<^sub>1 - 1\<close>.
\<close>

definition pct_change :: "real list \<Rightarrow> npfloat list" where
  "pct_change xs =
     (case xs of
        [] \<Rightarrow> []
      | _ # rest \<Rightarrow> NaN # map (\<lambda>(prev, cur). np_add (np_div cur prev) (- 1)) (zip xs rest))"

text \<open>Line 110: \<open>daily_returns = daily_capital.pct_change() * 100\<close>.\<close>

definition daily_returns :: "order_row list \<Rightarrow> real list \<Rightarrow> npfloat list" where
  "daily_returns df capital = map (\<lambda>x. np_mul x 100) (pct_change (daily_capital df capital))"

text \<open>
  \<open>row['leg_1']\<close>: the leg stored under the name \<open>leg_1\<close>; \<open>KeyError\<close> when there is no
  such column.
\<close>

definition leg_1 :: "order_row \<Rightarrow> error + leg" where
  "leg_1 row = (case map_of (legs row) ''leg_1'' of None \<Rightarrow> Inl KeyError | Some l \<Rightarrow> Inr l)"

text \<open>
  The lambda of line 112, \<open>row['leg_1']['order'][2] == 'O'\<close>. Indexing a string of fewer
  than three characters at \<open>2\<close> raises \<open>IndexError\<close>.
\<close>

definition is_entry_row :: "order_row \<Rightarrow> error + bool" where
  "is_entry_row row =
     (case leg_1 row of
        Inl e \<Rightarrow> Inl e
      | Inr l \<Rightarrow>
          if length (leg_order l) \<le> 2 then Inl IndexError
          else Inr (leg_order l ! 2 = CHR ''O''))"

text \<open>Line 112: \<open>df.apply(..., axis=1)\<close>, row by row; the first exception ends it.\<close>

fun entries_mask :: "order_row list \<Rightarrow> error + bool list" where
  "entries_mask [] = Inr []"
| "entries_mask (row # rows) =
     (case is_entry_row row of
        Inl e \<Rightarrow> Inl e
      | Inr b \<Rightarrow>
          (case entries_mask rows of
             Inl e \<Rightarrow> Inl e
           | Inr bs \<Rightarrow> Inr (b # bs)))"

text \<open>\<open>df.loc[mask]\<close> for a boolean mask over the rows.\<close>

definition select_rows :: "order_row list \<Rightarrow> bool list \<Rightarrow> order_row list" where
  "select_rows df msk = map fst (filter snd (zip df msk))"

text \<open>
  Lines 112-114: the mask, \<open>entries = df.loc[entries_mask]\<close> and
  \<open>exits = df.loc[~entries_mask]\<close>.
\<close>

definition partition_entries :: "order_row list \<Rightarrow> error + order_row list \<times> order_row list" where
  "partition_entries df =
     (case entries_mask df of
        Inl e \<Rightarrow> Inl e
      | Inr msk \<Rightarrow> Inr (select_rows df msk, select_rows df (map Not msk)))"

text \<open>The row test \<open>frame['leg_1']['contract'] == contract\<close>.\<close>

definition has_contract :: "string \<Rightarrow> order_row \<Rightarrow> bool" where
  "has_contract contract row =
     (case leg_1 row of Inl e \<Rightarrow> False | Inr l \<Rightarrow> leg_contract l = contract)"

text \<open>
  The loop of lines 116-125 over the contracts of the entry rows still to visit. The
  \<open>IndexError\<close> of \<open>.values[0]\<close> on an empty selection is caught and the contract skipped;
  otherwise the prices of the first entry row and the first exit row of the contract are
  added and appended to \<open>costs\<close>.
\<close>

fun match_loop ::
  "order_row list \<Rightarrow> order_row list \<Rightarrow> order_row list \<Rightarrow> real list \<Rightarrow> error + real list" where
  "match_loop [] entries exits costs = Inr costs"
| "match_loop (row # todo) entries exits costs =
     (case leg_1 row of
        Inl e \<Rightarrow> Inl e
      | Inr l \<Rightarrow>
          (let contract = leg_contract l;
               entry = filter (has_contract contract) entries;
               exit' = filter (has_contract contract) exits
           in case (entry, exit') of
                (en # _, ex # _) \<Rightarrow>
                  match_loop todo entries exits (costs @ [order_price en + order_price ex])
              | _ \<Rightarrow> match_loop todo entries exits costs))"

text \<open>\<open>np.sum\<close> of a boolean array: the number of \<open>True\<close> entries.\<close>

definition np_sum_bool :: "bool list \<Rightarrow> nat" where
  "np_sum_bool bs = length (filter (\<lambda>b. b) bs)"

text \<open>The nine statistics of the summary table (lines 145-153), in the order of the table.\<close>

record summary_stats =
  total_trades :: int
  win_number :: int
  loss_number :: int
  win_pct :: npfloat
  largest_loss :: real
  profit_factor :: npfloat
  avg_profit :: npfloat
  avg_pl :: npfloat
  total_pl :: npfloat

text \<open>
  Lines 108-153, on the frame \<open>df\<close> with its capital column \<open>capital\<close>. \<open>np.max\<close> of an
  empty array raises \<open>ValueError\<close>. The result \<open>Inr\<close> is the table built on line 153. What
  lines 155-165 then do with the daily returns (the frame of monthly returns and the heat
  map, handed to the plotting libraries) is not part of the model.
\<close>

definition summary_table :: "real \<Rightarrow> order_row list \<Rightarrow> real list \<Rightarrow> error + summary_stats" where
  "summary_table init df capital =
     (case partition_entries df of
        Inl e \<Rightarrow> Inl e
      | Inr (entries, exits) \<Rightarrow>
          (case match_loop entries entries exits [] of
             Inl e \<Rightarrow> Inl e
           | Inr costs \<Rightarrow>
               (let wins = map (\<lambda>c. c < 0) costs;
                    losses = map (\<lambda>c. c \<ge> 0) costs;
                    profit_factor' = np_div (real (np_sum_bool wins)) (real (np_sum_bool losses));
                    total_trades' = int (length exits);
                    win_number' = int (np_sum_bool wins);
                    loss_number' = total_trades' - win_number';
                    win_pct' = np_div (real_of_int win_number') (real_of_int total_trades')
                in case costs of
                     [] \<Rightarrow> Inl ValueError
                   | c # cs \<Rightarrow>
                       Inr \<lparr>total_trades = total_trades',
                            win_number = win_number',
                            loss_number = loss_number',
                            win_pct = win_pct',
                            largest_loss = fold max cs c,
                            profit_factor = profit_factor',
                            avg_profit = np_div (sum_list (map uminus costs)) (real (length costs)),
                            avg_pl = series_mean (daily_returns df capital),
                            total_pl = np_mul (np_div (last capital) init) 100\<rparr>)))"

text \<open>
  \<open>summary\<close> (lines 101-153). \<open>df\<close> is the trade log object itself, so the assignment of
  lines 104-106 writes the capital column into \<open>self.trade_log\<close>; the new object state is
  returned with the result. A trade log without rows has no \<open>totals\<close> columns to read.
\<close>

definition summary :: "'o backtest \<Rightarrow> 'o backtest \<times> (error + summary_stats)" where
  "summary bt =
     (case trade_log bt of
        None \<Rightarrow> (bt, Inl AttributeError)
      | Some df \<Rightarrow>
          (case df of
             [] \<Rightarrow> (bt, Inl KeyError)
           | _ # _ \<Rightarrow>
               (case bt_strategy bt of
                  None \<Rightarrow> (bt, Inl AttributeError)
                | Some strat \<Rightarrow>
                    (let capital = capital_series (initial_capital strat) df;
                         df' = map (\<lambda>(r, c). set_capital r c) (zip df capital)
                     in (bt\<lparr>trade_log := Some df'\<rparr>,
                         summary_table (initial_capital strat) df' capital)))))"

section \<open>Notions used in the statements\<close>


text \<open>The capital, the trade log and the inventory a run ends with (nothing after an exception).\<close>

definition final_capital :: "error + 'o backtest \<Rightarrow> real option" where
  "final_capital res = (case res of Inl e \<Rightarrow> None | Inr bt \<Rightarrow> current_capital bt)"

definition final_log :: "error + 'o backtest \<Rightarrow> order_row list option" where
  "final_log res = (case res of Inl e \<Rightarrow> None | Inr bt \<Rightarrow> trade_log bt)"

definition final_inventory :: "error + 'o backtest \<Rightarrow> order_row list option" where
  "final_inventory res = (case res of Inl e \<Rightarrow> None | Inr bt \<Rightarrow> Some (inventory bt))"

text \<open>A second call of \<open>run\<close> on the object the first call left.\<close>

definition run_again :: "error + 'o backtest \<Rightarrow> bool \<Rightarrow> error + 'o backtest" where
  "run_again res monthly = (case res of Inl e \<Rightarrow> Inl e | Inr bt \<Rightarrow> run bt monthly)"

text \<open>\<open>run\<close> followed by \<open>summary\<close>: the table, and the object state afterwards.\<close>

definition run_then_summary :: "'o backtest \<Rightarrow> bool \<Rightarrow> error + summary_stats" where
  "run_then_summary bt monthly =
     (case run bt monthly of Inl e \<Rightarrow> Inl e | Inr bt' \<Rightarrow> snd (summary bt'))"

definition then_summary :: "error + 'o backtest \<Rightarrow> error + 'o backtest" where
  "then_summary res = (case res of Inl e \<Rightarrow> Inl e | Inr bt \<Rightarrow> Inr (fst (summary bt)))"


text \<open>
  The precondition of the partition of a trade log into entries and exits: the row has a
  leg named \<open>leg_1\<close> whose order string has at least three characters. And the
  classification of a row as an entry: the character at index 2 of that string is \<open>O\<close>.
\<close>

definition tag_readable :: "order_row \<Rightarrow> bool" where
  "tag_readable row =
     (case map_of (legs row) ''leg_1'' of None \<Rightarrow> False | Some l \<Rightarrow> 3 \<le> length (leg_order l))"

definition entry_tagged :: "order_row \<Rightarrow> bool" where
  "entry_tagged row =
     (case map_of (legs row) ''leg_1'' of
        None \<Rightarrow> False
      | Some l \<Rightarrow> 3 \<le> length (leg_order l) \<and> leg_order l ! 2 = CHR ''O'')"

text \<open>The contract of the first leg of a row that has a leg named \<open>leg_1\<close>.\<close>

definition contract_1 :: "order_row \<Rightarrow> string" where
  "contract_1 row = (case map_of (legs row) ''leg_1'' of None \<Rightarrow> [] | Some l \<Rightarrow> leg_contract l)"


section \<open>Example configurations\<close>

text \<open>A single-leg order row: contract, order tag, cost, quantity and date.\<close>

definition single_leg :: "string \<Rightarrow> string \<Rightarrow> real \<Rightarrow> real \<Rightarrow> date \<Rightarrow> order_row" where
  "single_leg contract tag c q d =
     \<lparr>legs = [(''leg_1'',
          \<lparr>leg_contract = contract, leg_underlying = ''SPX'', leg_expiration = 30,
           leg_type = ''call'', leg_strike = 100, leg_cost = c, leg_order = tag\<rparr>)],
      totals = \<lparr>totals_cost = c, totals_qty = q, totals_date = d, totals_capital = None\<rparr>\<rparr>"

text \<open>
  A strategy that signals what the snapshot of the period lists: the snapshot is the pair
  of the entry candidates and the exit signals of that period.
\<close>

definition scripted_strategy :: "real \<Rightarrow> (order_row list \<times> exit_signals) strategy" where
  "scripted_strategy cap =
     \<lparr>strat_schema = ''schema'', strat_legs = [''leg_1''], initial_capital = cap,
      filter_entries = (\<lambda>options inventory date. fst options),
      filter_exits = (\<lambda>options inventory date. snd options)\<rparr>"

definition scripted_data ::
  "(date \<times> order_row list \<times> exit_signals) list \<Rightarrow>
   (order_row list \<times> exit_signals) historical_options_data" where
  "scripted_data periods = \<lparr>data_schema = ''schema'', iter_dates = periods, iter_months = periods\<rparr>"

text \<open>\<open>bt = Backtest(); bt.strategy = ...; bt.data = ...\<close>\<close>

definition scripted_backtest ::
  "real \<Rightarrow> (date \<times> order_row list \<times> exit_signals) list \<Rightarrow>
   (order_row list \<times> exit_signals) backtest" where
  "scripted_backtest cap periods =
     set_data (set_strategy Backtest_init (scripted_strategy cap)) (scripted_data periods)"

text \<open>
  Scenario A: initial capital 1000, on day 1 an entry for 100, on day 3 its exit, a
  credit of 150.
\<close>

definition scenario_A :: "(date \<times> order_row list \<times> exit_signals) list" where
  "scenario_A =
     [(1, [single_leg ''X'' ''BTO'' 100 1 1], [], [], []),
      (3, [], [single_leg ''X'' ''STC'' (- 150) 1 3], [True], [- 150])]"


text \<open>One position is opened and not closed.\<close>

definition scenario_open :: "(date \<times> order_row list \<times> exit_signals) list" where
  "scenario_open = [(1, [single_leg ''X'' ''BTO'' 100 1 1], [], [], [])]"


section \<open>Properties of the execution engine\<close>

subsection \<open>What one step does\<close>


lemma process_entry_signals_take:
  "process_entry_signals sigs = (take 1 sigs, log_total (take 1 sigs))"
  by (cases sigs) (simp_all add: process_entry_signals_def log_total_def)




subsection \<open>Invariants of the loop\<close>



subsection \<open>When the run returns\<close>

lemma run_period_returns:
  assumes "bt_strategy bt = Some strat" and "trade_log bt = Some tlog"
    and "current_capital bt = Some c"
    and "length (fst (snd (filter_exits strat opts (inventory bt) d))) = length (inventory bt)"
  shows "\<exists>bt' tlog' c'. run_period bt (d, opts) = Inr bt' \<and> bt_strategy bt' = Some strat \<and>
           trade_log bt' = Some tlog' \<and> current_capital bt' = Some c'"
proof -
  obtain exits msk costs where fx: "filter_exits strat opts (inventory bt) d = (exits, msk, costs)"
    by (cases "filter_exits strat opts (inventory bt) d") auto
  with assms show ?thesis
    by (auto simp: run_period_def execute_exit_def drop_masked_def execute_entry_def
        process_entry_signals_take)
qed

lemma run_loop_returns:
  assumes "bt_strategy bt = Some strat" and "trade_log bt = Some tlog"
    and "current_capital bt = Some c"
    and "\<forall>(date, options) \<in> set periods.
           \<forall>rows. length (fst (snd (filter_exits strat options rows date))) = length rows"
  shows "\<exists>bt'. run_loop bt periods = Inr bt'"
  using assms
proof (induction periods arbitrary: bt tlog c)
  case Nil
  then show ?case by simp
next
  case (Cons p periods)
  obtain d opts where p: "p = (d, opts)" by (cases p)
  from Cons.prems(4) p
  have "length (fst (snd (filter_exits strat opts (inventory bt) d))) = length (inventory bt)"
    by auto
  from run_period_returns [OF Cons.prems(1,2,3) this] obtain bt1 tlog1 c1 where
    step: "run_period bt (d, opts) = Inr bt1" and
    inv: "bt_strategy bt1 = Some strat" "trade_log bt1 = Some tlog1" "current_capital bt1 = Some c1"
    by blast
  from Cons.prems(4) have "\<forall>(date, options) \<in> set periods.
           \<forall>rows. length (fst (snd (filter_exits strat options rows date))) = length rows"
    by simp
  from Cons.IH [OF inv this] step p show ?case by simp
qed

text \<open>
  \<open>run\<close> returns whenever the collaborators are configured with equal schemas and the
  strategy's exit masks have one entry per row of the inventory they are computed from.
\<close>

lemma run_returns:
  assumes "bt_strategy bt = Some strat" and "bt_data bt = Some d"
    and "data_schema d = strat_schema strat" and "current_capital bt = Some c"
    and "\<forall>(date, options) \<in> set (if monthly then iter_months d else iter_dates d).
           \<forall>rows. length (fst (snd (filter_exits strat options rows date))) = length rows"
  shows "\<exists>bt'. run bt monthly = Inr bt'"
proof -
  have "bt_strategy (run_reset bt) = Some strat" "trade_log (run_reset bt) = Some []"
    "current_capital (run_reset bt) = Some c"
    using assms(1,4) by (simp_all add: run_reset_def)
  from run_loop_returns [OF this assms(5)] assms(1,2,3) show ?thesis
    by (simp add: run_def)
qed

subsection \<open>Unfolding the definitions on concrete inputs\<close>

lemmas engine_defs = run_def run_reset_def run_period_def execute_exit_def execute_entry_def
  drop_masked_def process_entry_signals_def order_price_def log_total_def
  final_capital_def final_log_def final_inventory_def run_again_def

lemmas fixture_defs = scripted_backtest_def scripted_strategy_def scripted_data_def set_data_def
  set_strategy_def Backtest_init_def single_leg_def

lemmas summary_defs = run_then_summary_def then_summary_def summary_def summary_table_def
  partition_entries_def is_entry_row_def leg_1_def select_rows_def has_contract_def
  np_sum_bool_def np_div_def capital_series_def cumsum_def set_capital_def daily_returns_def
  daily_capital_def pct_change_def series_mean_def

subsection \<open>Capital conservation\<close>




subsection \<open>The state at the start of a run\<close>

text \<open>
  Claim C9. \<open>run\<close> creates an empty inventory and an empty trade log, but the capital is
  assigned by the \<open>strategy\<close> setter only: a second \<open>run\<close> on the same object starts from
  the capital the first one ended with. With scenario A the first run ends with 1050; the
  second run starts with an empty log, an empty inventory and 1050, and ends with 1100
  and the same trade log as the first.
\<close>

theorem second_run_keeps_leftover_capital:
  "final_capital (run (scripted_backtest 1000 scenario_A) False) = Some 1050 \<and>
   final_capital (map_sum id run_reset (run (scripted_backtest 1000 scenario_A) False)) = Some 1050 \<and>
   final_log (map_sum id run_reset (run (scripted_backtest 1000 scenario_A) False)) = Some [] \<and>
   final_inventory (map_sum id run_reset (run (scripted_backtest 1000 scenario_A) False)) = Some [] \<and>
   final_capital (run_again (run (scripted_backtest 1000 scenario_A) False) False) = Some 1100 \<and>
   final_log (run_again (run (scripted_backtest 1000 scenario_A) False) False) =
     final_log (run (scripted_backtest 1000 scenario_A) False)"
  by (simp add: engine_defs fixture_defs scenario_A_def)

subsection \<open>Entries\<close>

text \<open>
  Claim C5. Without candidates the entry step changes nothing. With candidates
  \<open>e # others\<close> the selected entry is \<open>e\<close>, the first; the step does what it does for
  \<open>e\<close> alone, whatever the others are: either nothing, or \<open>e\<close> and only \<open>e\<close> is appended to
  the inventory and to the trade log and its price is subtracted.
\<close>

theorem single_entry_per_period:
  assumes "trade_log bt = Some tlog" and "current_capital bt = Some capital"
  shows "execute_entry bt [] = Inr bt
    \<and> process_entry_signals (e # others) = ([e], order_price e)
    \<and> execute_entry bt (e # others) = execute_entry bt [e]
    \<and> (execute_entry bt (e # others) = Inr bt
        \<or> execute_entry bt (e # others) =
            Inr (bt\<lparr>inventory := inventory bt @ [e], trade_log := Some (tlog @ [e]),
                    current_capital := Some (capital - order_price e)\<rparr>))"
  using assms
  by (auto simp: execute_entry_def process_entry_signals_def)

text \<open>Scenario C: candidates for 10, 20 and 30 with a capital of 100; the first is executed.\<close>

theorem single_entry_per_period_witness:
  "execute_entry (run_reset (scripted_backtest 100 [])) [] = Inr (run_reset (scripted_backtest 100 []))
   \<and> execute_entry (run_reset (scripted_backtest 100 []))
       [single_leg ''A'' ''BTO'' 10 1 1, single_leg ''B'' ''BTO'' 20 1 1, single_leg ''C'' ''BTO'' 30 1 1]
     = Inr ((run_reset (scripted_backtest 100 []))
          \<lparr>inventory := [single_leg ''A'' ''BTO'' 10 1 1],
           trade_log := Some [single_leg ''A'' ''BTO'' 10 1 1],
           current_capital := Some 90\<rparr>)"
proof -
  let ?bt = "run_reset (scripted_backtest 100 [])"
  have l: "trade_log ?bt = Some []" and c: "current_capital ?bt = Some 100"
    by (simp_all add: run_reset_def fixture_defs)
  have "execute_entry ?bt [single_leg ''A'' ''BTO'' 10 1 1]
     = Inr (?bt\<lparr>inventory := [single_leg ''A'' ''BTO'' 10 1 1],
           trade_log := Some [single_leg ''A'' ''BTO'' 10 1 1],
           current_capital := Some 90\<rparr>)"
    by (simp add: engine_defs fixture_defs)
  with single_entry_per_period [OF l c, of "single_leg ''A'' ''BTO'' 10 1 1"
      "[single_leg ''B'' ''BTO'' 20 1 1, single_leg ''C'' ''BTO'' 30 1 1]"]
  show ?thesis by simp
qed

text \<open>
  Claim C4. With \<open>stop_if_broke\<close> set, a first candidate whose price exceeds the capital
  leaves the object unchanged; more generally no candidate whose price exceeds the
  capital is among the rows the step appends to the inventory and the trade log. With
  \<open>stop_if_broke\<close> unset the first candidate is executed whatever the capital.
\<close>

theorem capital_gating:
  assumes "trade_log bt = Some tlog" and "current_capital bt = Some capital"
  shows "(stop_if_broke bt \<and> capital < order_price e \<longrightarrow> execute_entry bt (e # others) = Inr bt)
    \<and> (stop_if_broke bt \<and> cand \<in> set sigs \<and> capital < order_price cand \<longrightarrow>
         (\<exists>new. execute_entry bt sigs =
             Inr (bt\<lparr>inventory := inventory bt @ new, trade_log := Some (tlog @ new),
                     current_capital := Some (capital - log_total new)\<rparr>)
           \<and> cand \<notin> set new))
    \<and> (\<not> stop_if_broke bt \<longrightarrow>
         execute_entry bt (e # others) =
           Inr (bt\<lparr>inventory := inventory bt @ [e], trade_log := Some (tlog @ [e]),
                   current_capital := Some (capital - order_price e)\<rparr>))"
proof (intro conjI impI)
  assume "stop_if_broke bt \<and> capital < order_price e"
  with assms show "execute_entry bt (e # others) = Inr bt"
    by (simp add: execute_entry_def process_entry_signals_def)
next
  assume "\<not> stop_if_broke bt"
  with assms show "execute_entry bt (e # others) =
      Inr (bt\<lparr>inventory := inventory bt @ [e], trade_log := Some (tlog @ [e]),
              current_capital := Some (capital - order_price e)\<rparr>)"
    by (simp add: execute_entry_def process_entry_signals_def)
next
  assume a: "stop_if_broke bt \<and> cand \<in> set sigs \<and> capital < order_price cand"
  then obtain first others' where sigs: "sigs = first # others'"
    by (cases sigs) auto
  have unchanged: "bt\<lparr>inventory := inventory bt @ [], trade_log := Some (tlog @ []),
      current_capital := Some (capital - log_total [])\<rparr> = bt"
    using assms by (simp add: log_total_def)
  show "\<exists>new. execute_entry bt sigs =
      Inr (bt\<lparr>inventory := inventory bt @ new, trade_log := Some (tlog @ new),
              current_capital := Some (capital - log_total new)\<rparr>) \<and> cand \<notin> set new"
  proof (cases "capital \<ge> order_price first")
    case True
    with a have "cand \<noteq> first" by auto
    moreover from True a assms sigs have "execute_entry bt sigs =
        Inr (bt\<lparr>inventory := inventory bt @ [first], trade_log := Some (tlog @ [first]),
                current_capital := Some (capital - log_total [first])\<rparr>)"
      by (simp add: execute_entry_def process_entry_signals_def log_total_def)
    ultimately show ?thesis
      by (intro exI [of _ "[first]"]) simp
  next
    case False
    with a assms sigs have "execute_entry bt sigs = Inr bt"
      by (simp add: execute_entry_def process_entry_signals_def)
    with unchanged show ?thesis
      by (intro exI [of _ "[]"]) simp
  qed
qed

text \<open>
  Scenario B: a capital of 50 and a candidate for 100, with and without \<open>stop_if_broke\<close>; and the
  same candidate behind an affordable one.
\<close>

theorem capital_gating_witness:
  "execute_entry (run_reset (scripted_backtest 50 [])) [single_leg ''A'' ''BTO'' 100 1 1]
     = Inr (run_reset (scripted_backtest 50 []))
   \<and> execute_entry ((run_reset (scripted_backtest 50 []))\<lparr>stop_if_broke := False\<rparr>)
        [single_leg ''A'' ''BTO'' 100 1 1]
     = Inr ((run_reset (scripted_backtest 50 []))
          \<lparr>stop_if_broke := False,
           inventory := [single_leg ''A'' ''BTO'' 100 1 1],
           trade_log := Some [single_leg ''A'' ''BTO'' 100 1 1],
           current_capital := Some (- 50)\<rparr>)
   \<and> (\<exists>new. execute_entry (run_reset (scripted_backtest 50 []))
          [single_leg ''B'' ''BTO'' 10 1 1, single_leg ''A'' ''BTO'' 100 1 1]
        = Inr ((run_reset (scripted_backtest 50 []))
            \<lparr>inventory := inventory (run_reset (scripted_backtest 50 [])) @ new,
             trade_log := Some ([] @ new),
             current_capital := Some (50 - log_total new)\<rparr>)
      \<and> single_leg ''A'' ''BTO'' 100 1 1 \<notin> set new)"
proof -
  let ?bt = "run_reset (scripted_backtest 50 [])"
  let ?bt' = "?bt\<lparr>stop_if_broke := False\<rparr>"
  let ?e = "single_leg ''A'' ''BTO'' 100 1 1"
  let ?b = "single_leg ''B'' ''BTO'' 10 1 1"
  have l: "trade_log ?bt = Some []" and c: "current_capital ?bt = Some 50"
    and l': "trade_log ?bt' = Some []" and c': "current_capital ?bt' = Some 50"
    by (simp_all add: run_reset_def fixture_defs)
  have g: "stop_if_broke ?bt \<and> 50 < order_price ?e"
    by (simp add: run_reset_def fixture_defs order_price_def)
  have ng: "\<not> stop_if_broke ?bt'" by simp
  from capital_gating [OF l c, of ?e "[]"] g
  have 1: "execute_entry ?bt [?e] = Inr ?bt" by blast
  from capital_gating [OF l' c', of ?e "[]"] ng
  have "execute_entry ?bt' [?e] = Inr (?bt'\<lparr>inventory := inventory ?bt' @ [?e],
     trade_log := Some ([] @ [?e]), current_capital := Some (50 - order_price ?e)\<rparr>)"
    by blast
  then have 2: "execute_entry ?bt' [?e] = Inr (?bt\<lparr>stop_if_broke := False, inventory := [?e],
     trade_log := Some [?e], current_capital := Some (- 50)\<rparr>)"
    by (simp add: run_reset_def order_price_def single_leg_def)
  have "stop_if_broke ?bt \<and> ?e \<in> set [?b, ?e] \<and> 50 < order_price ?e"
    using g by simp
  with capital_gating [OF l c, where cand = ?e and sigs = "[?b, ?e]"]
  have 3: "\<exists>new. execute_entry ?bt [?b, ?e]
        = Inr (?bt\<lparr>inventory := inventory ?bt @ new, trade_log := Some ([] @ new),
                  current_capital := Some (50 - log_total new)\<rparr>)
      \<and> ?e \<notin> set new"
    by blast
  from 1 2 3 show ?thesis by blast
qed

subsection \<open>One period\<close>

text \<open>
  Claim C6. In one period the exits are applied first: the exit rows precede the entry in
  the trade log, and the entry is gated against the capital after the exits,
  \<open>capital - sum(total_costs)\<close>.
\<close>

theorem exits_before_entries:
  assumes "bt_strategy bt = Some strat" and "trade_log bt = Some tlog"
    and "current_capital bt = Some capital"
    and "filter_exits strat options (inventory bt) date = (exits, msk, total_costs)"
    and "length msk = length (inventory bt)"
    and "filter_entries strat options (inventory bt) date = entry # others"
    and "stop_if_broke bt"
  shows "run_period bt (date, options) =
     Inr (if capital - sum_list total_costs \<ge> order_price entry
          then bt\<lparr>trade_log := Some (tlog @ exits @ [entry]),
                  inventory := map fst (filter (\<lambda>(r, m). \<not> m) (zip (inventory bt) msk)) @ [entry],
                  current_capital := Some (capital - sum_list total_costs - order_price entry)\<rparr>
          else bt\<lparr>trade_log := Some (tlog @ exits),
                  inventory := map fst (filter (\<lambda>(r, m). \<not> m) (zip (inventory bt) msk)),
                  current_capital := Some (capital - sum_list total_costs)\<rparr>)"
  using assms
  by (simp add: run_period_def execute_exit_def drop_masked_def execute_entry_def
      process_entry_signals_def)

text \<open>
  A capital of 10, an exit with a credit of 100 and an entry for 100 in the same period:
  the entry is executed, since the capital is 110 when it is gated.
\<close>

theorem exits_before_entries_witness:
  "run_period
     ((run_reset (scripted_backtest 50 []))
        \<lparr>inventory := [single_leg ''X'' ''BTO'' 40 1 1],
         trade_log := Some [single_leg ''X'' ''BTO'' 40 1 1],
         current_capital := Some 10\<rparr>)
     (2, [single_leg ''Y'' ''BTO'' 100 1 2], [single_leg ''X'' ''STC'' (- 100) 1 2], [True], [- 100])
   = Inr ((run_reset (scripted_backtest 50 []))
        \<lparr>inventory := [single_leg ''Y'' ''BTO'' 100 1 2],
         trade_log := Some [single_leg ''X'' ''BTO'' 40 1 1, single_leg ''X'' ''STC'' (- 100) 1 2,
                            single_leg ''Y'' ''BTO'' 100 1 2],
         current_capital := Some 10\<rparr>)"
proof -
  let ?x = "single_leg ''X'' ''BTO'' 40 1 1"
  let ?bt = "(run_reset (scripted_backtest 50 []))
        \<lparr>inventory := [?x], trade_log := Some [?x], current_capital := Some 10\<rparr>"
  let ?opts = "([single_leg ''Y'' ''BTO'' 100 1 2], [single_leg ''X'' ''STC'' (- 100) 1 2], [True], [- 100 :: real])"
  have s: "bt_strategy ?bt = Some (scripted_strategy 50)"
    and l: "trade_log ?bt = Some [?x]" and c: "current_capital ?bt = Some 10"
    and b: "stop_if_broke ?bt"
    by (simp_all add: run_reset_def fixture_defs)
  have fx: "filter_exits (scripted_strategy 50) ?opts (inventory ?bt) 2
      = ([single_leg ''X'' ''STC'' (- 100) 1 2], [True], [- 100])"
    and fe: "filter_entries (scripted_strategy 50) ?opts (inventory ?bt) 2
      = single_leg ''Y'' ''BTO'' 100 1 2 # []"
    by (simp_all add: scripted_strategy_def)
  have m: "length [True] = length (inventory ?bt)" by simp
  from exits_before_entries [OF s l c fx m fe b] show ?thesis
    by (simp add: order_price_def single_leg_def)
qed

section \<open>Properties of the summary statistics\<close>

subsection \<open>The capital column\<close>

lemma length_cumsum_from: "length (cumsum_from acc xs) = length xs"
  by (induction xs arbitrary: acc) simp_all

lemma length_capital_series: "length (capital_series init df) = length df"
  by (simp add: capital_series_def cumsum_def length_cumsum_from)

lemma set_capital_fields:
  "legs (set_capital r c) = legs r"
  "totals_cost (totals (set_capital r c)) = totals_cost (totals r)"
  "totals_qty (totals (set_capital r c)) = totals_qty (totals r)"
  "totals_date (totals (set_capital r c)) = totals_date (totals r)"
  "totals_capital (totals (set_capital r c)) = Some c"
  by (simp_all add: set_capital_def)

lemma is_entry_row_set_capital: "is_entry_row (set_capital r c) = is_entry_row r"
  by (simp add: is_entry_row_def leg_1_def set_capital_fields)

lemma entries_mask_set_capital:
  "length capital = length df \<Longrightarrow>
   entries_mask (map (\<lambda>(r, c). set_capital r c) (zip df capital)) = entries_mask df"
proof (induction df arbitrary: capital)
  case Nil
  then show ?case by simp
next
  case (Cons r df)
  then obtain c cs where "capital = c # cs" "length cs = length df"
    by (cases capital) auto
  with Cons.IH [of cs] show ?case
    by (simp add: is_entry_row_set_capital split: sum.splits)
qed






subsection \<open>The trade log during and after the run\<close>




subsection \<open>The partition into entries and exits\<close>

lemma is_entry_row_readable:
  "tag_readable row \<Longrightarrow> is_entry_row row = Inr (entry_tagged row)"
  by (auto simp: tag_readable_def entry_tagged_def is_entry_row_def leg_1_def split: option.splits)

lemma is_entry_row_unreadable:
  "\<not> tag_readable row \<Longrightarrow> is_entry_row row = Inl KeyError \<or> is_entry_row row = Inl IndexError"
  by (auto simp: tag_readable_def is_entry_row_def leg_1_def split: option.splits)

lemma entries_mask_readable:
  "list_all tag_readable df \<Longrightarrow> entries_mask df = Inr (map entry_tagged df)"
  by (induction df) (simp_all add: is_entry_row_readable)

lemma entries_mask_unreadable:
  "\<not> list_all tag_readable df \<Longrightarrow>
   entries_mask df = Inl KeyError \<or> entries_mask df = Inl IndexError"
proof (induction df)
  case Nil
  then show ?case by simp
next
  case (Cons r df)
  show ?case
  proof (cases "tag_readable r")
    case True
    with Cons show ?thesis
      by (auto simp: is_entry_row_readable)
  next
    case False
    from is_entry_row_unreadable [OF this] show ?thesis
      by auto
  qed
qed

lemma select_rows_map: "select_rows df (map P df) = filter P df"
  by (induction df) (simp_all add: select_rows_def)

lemma select_rows_map_not: "select_rows df (map Not (map P df)) = filter (\<lambda>r. \<not> P r) df"
  by (induction df) (simp_all add: select_rows_def)

lemma summary_unreadable:
  assumes "trade_log bt = Some df" and "df \<noteq> []" and "bt_strategy bt = Some strat"
    and "\<not> list_all tag_readable df"
  shows "snd (summary bt) = Inl KeyError \<or> snd (summary bt) = Inl IndexError"
proof -
  let ?capital = "capital_series (initial_capital strat) df"
  let ?df' = "map (\<lambda>(r, c). set_capital r c) (zip df ?capital)"
  from assms(1,2,3) have "snd (summary bt) = summary_table (initial_capital strat) ?df' ?capital"
    by (cases df) (simp_all add: summary_def Let_def)
  moreover have "entries_mask ?df' = entries_mask df"
    by (rule entries_mask_set_capital) (simp add: length_capital_series)
  moreover note entries_mask_unreadable [OF assms(4)]
  ultimately show ?thesis
    by (auto simp: summary_table_def partition_entries_def)
qed

lemma tag_readable_set_capital: "tag_readable (set_capital r c) = tag_readable r"
  by (simp add: tag_readable_def set_capital_fields)

lemma entry_tagged_set_capital: "entry_tagged (set_capital r c) = entry_tagged r"
  by (simp add: entry_tagged_def set_capital_fields)

text \<open>
  Claim C10. If every row has a leg named \<open>leg_1\<close> whose order string has at least three
  characters, the partition of lines 112-114 does not raise, and a row is an entry exactly
  when the character at index 2 of that string is \<open>O\<close>; every other row is an exit. The
  precondition is not checked: if a row violates it, the partition raises \<open>KeyError\<close> or
  \<open>IndexError\<close>, and so does \<open>summary\<close>.
\<close>

theorem leg_1_order_tag_partition:
  "(list_all tag_readable df \<longrightarrow>
      partition_entries df = Inr (filter entry_tagged df, filter (\<lambda>r. \<not> entry_tagged r) df))
   \<and> (\<not> list_all tag_readable df \<longrightarrow>
      (partition_entries df = Inl KeyError \<or> partition_entries df = Inl IndexError))
   \<and> (trade_log bt = Some df \<and> df \<noteq> [] \<and> bt_strategy bt = Some strat
        \<and> \<not> list_all tag_readable df \<longrightarrow>
      (snd (summary bt) = Inl KeyError \<or> snd (summary bt) = Inl IndexError))"
proof (intro conjI impI)
  assume "list_all tag_readable df"
  then show "partition_entries df = Inr (filter entry_tagged df, filter (\<lambda>r. \<not> entry_tagged r) df)"
    by (simp add: partition_entries_def entries_mask_readable select_rows_map select_rows_map_not
        del: map_map)
next
  assume "\<not> list_all tag_readable df"
  from entries_mask_unreadable [OF this]
  show "partition_entries df = Inl KeyError \<or> partition_entries df = Inl IndexError"
    by (auto simp: partition_entries_def)
next
  assume "trade_log bt = Some df \<and> df \<noteq> [] \<and> bt_strategy bt = Some strat
        \<and> \<not> list_all tag_readable df"
  then show "snd (summary bt) = Inl KeyError \<or> snd (summary bt) = Inl IndexError"
    using summary_unreadable by blast
qed

text \<open>
  The log of scenario A is split into its \<open>BTO\<close> row and its \<open>STC\<close> row; a row tagged \<open>BT\<close>
  makes the partition and \<open>summary\<close> raise \<open>IndexError\<close>.
\<close>

theorem leg_1_order_tag_partition_witness:
  "partition_entries [single_leg ''X'' ''BTO'' 100 1 1, single_leg ''X'' ''STC'' (- 150) 1 3]
     = Inr ([single_leg ''X'' ''BTO'' 100 1 1], [single_leg ''X'' ''STC'' (- 150) 1 3])
   \<and> partition_entries [single_leg ''X'' ''BT'' 100 1 1] = Inl IndexError
   \<and> snd (summary ((scripted_backtest 1000 [])\<lparr>trade_log := Some [single_leg ''X'' ''BT'' 100 1 1]\<rparr>))
       = Inl IndexError"
proof -
  let ?ok = "[single_leg ''X'' ''BTO'' 100 1 1, single_leg ''X'' ''STC'' (- 150) 1 3]"
  let ?short = "[single_leg ''X'' ''BT'' 100 1 1]"
  let ?bt = "(scripted_backtest 1000 [])\<lparr>trade_log := Some ?short\<rparr>"
  have ok: "list_all tag_readable ?ok" and short: "\<not> list_all tag_readable ?short"
    by (simp_all add: tag_readable_def single_leg_def)
  have tagged: "filter entry_tagged ?ok = [single_leg ''X'' ''BTO'' 100 1 1]"
      "filter (\<lambda>r. \<not> entry_tagged r) ?ok = [single_leg ''X'' ''STC'' (- 150) 1 3]"
    by (simp_all add: entry_tagged_def single_leg_def)
  have key: "partition_entries ?short \<noteq> Inl KeyError" "snd (summary ?bt) \<noteq> Inl KeyError"
    by (simp_all add: summary_defs fixture_defs)
  have bt: "trade_log ?bt = Some ?short \<and> ?short \<noteq> [] \<and>
      bt_strategy ?bt = Some (scripted_strategy 1000) \<and> \<not> list_all tag_readable ?short"
    using short by (simp add: fixture_defs)
  from leg_1_order_tag_partition [of ?ok] ok tagged
  have 1: "partition_entries ?ok
     = Inr ([single_leg ''X'' ''BTO'' 100 1 1], [single_leg ''X'' ''STC'' (- 150) 1 3])"
    by simp
  from leg_1_order_tag_partition [of ?short ?bt "scripted_strategy 1000"] short bt key
  have "partition_entries ?short = Inl IndexError" "snd (summary ?bt) = Inl IndexError"
    by blast+
  with 1 show ?thesis by simp
qed

subsection \<open>Matched round trips\<close>

lemma leg_1_readable: "tag_readable row \<Longrightarrow> \<exists>l. leg_1 row = Inr l \<and> leg_contract l = contract_1 row"
  by (auto simp: tag_readable_def leg_1_def contract_1_def split: option.splits)

lemma has_contract_readable: "tag_readable row \<Longrightarrow> has_contract c row = (contract_1 row = c)"
  by (auto simp: has_contract_def dest!: leg_1_readable)

lemma match_loop_costs:
  assumes "list_all tag_readable todo" and "list_all tag_readable entries"
    and "list_all tag_readable exits" and "set todo \<subseteq> set entries"
  shows "\<exists>new. match_loop todo entries exits costs = Inr (costs @ new) \<and>
           length new = length (filter (\<lambda>r. contract_1 r \<in> contract_1 ` set exits) todo)"
  using assms
proof (induction todo arbitrary: costs)
  case Nil
  then show ?case by simp
next
  case (Cons row todo)
  from Cons.prems(1) have r: "tag_readable row" and t: "list_all tag_readable todo" by simp_all
  from leg_1_readable [OF r] obtain l where l: "leg_1 row = Inr l" "leg_contract l = contract_1 row"
    by blast
  let ?entry = "filter (has_contract (contract_1 row)) entries"
  let ?exit = "filter (has_contract (contract_1 row)) exits"
  from Cons.prems(4) have "row \<in> set entries" by simp
  with r have "row \<in> set ?entry"
    by (simp add: has_contract_readable)
  then obtain en ens where en: "?entry = en # ens"
    by (cases ?entry) auto
  have ex: "(?exit \<noteq> []) = (contract_1 row \<in> contract_1 ` set exits)"
  proof -
    have same: "has_contract (contract_1 row) x = (contract_1 x = contract_1 row)"
      if "x \<in> set exits" for x
      using that Cons.prems(3) by (simp add: list_all_iff has_contract_readable)
    show ?thesis
    proof
      assume "?exit \<noteq> []"
      then obtain x where "x \<in> set exits" "has_contract (contract_1 row) x"
        by (auto simp: filter_empty_conv)
      with same show "contract_1 row \<in> contract_1 ` set exits"
        by (metis imageI)
    next
      assume "contract_1 row \<in> contract_1 ` set exits"
      then obtain x where "x \<in> set exits" "contract_1 x = contract_1 row"
        by (auto simp: image_iff)
      with same show "?exit \<noteq> []"
        by (auto simp: filter_empty_conv)
    qed
  qed
  from Cons.prems(4) have sub: "set todo \<subseteq> set entries" by simp
  show ?case
  proof (cases ?exit)
    case Nil
    with ex have "contract_1 row \<notin> contract_1 ` set exits" by simp
    moreover from Cons.IH [OF t Cons.prems(2,3) sub, of costs] obtain new where
      "match_loop todo entries exits costs = Inr (costs @ new)"
      "length new = length (filter (\<lambda>r. contract_1 r \<in> contract_1 ` set exits) todo)"
      by blast
    ultimately show ?thesis
      using l en Nil by (intro exI [of _ new]) (simp add: Let_def)
  next
    case (Cons x xs)
    with ex have "contract_1 row \<in> contract_1 ` set exits" by simp
    moreover from Cons.IH [OF t Cons.prems(2,3) sub, of "costs @ [order_price en + order_price x]"]
    obtain new where
      "match_loop todo entries exits (costs @ [order_price en + order_price x])
         = Inr ((costs @ [order_price en + order_price x]) @ new)"
      "length new = length (filter (\<lambda>r. contract_1 r \<in> contract_1 ` set exits) todo)"
      by blast
    ultimately show ?thesis
      using l en Cons
      by (intro exI [of _ "(order_price en + order_price x) # new"]) (simp add: Let_def)
  qed
qed

lemma distinct_filter_count:
  assumes "distinct xs" and "distinct ys" and "set ys \<subseteq> set xs"
  shows "length (filter (\<lambda>x. x \<in> set ys) xs) = length ys"
proof -
  have "length (filter (\<lambda>x. x \<in> set ys) xs) = card (set (filter (\<lambda>x. x \<in> set ys) xs))"
    using assms(1) by (metis distinct_card distinct_filter)
  also have "set (filter (\<lambda>x. x \<in> set ys) xs) = set ys"
    using assms(3) by auto
  also have "card (set ys) = length ys"
    using assms(2) by (simp add: distinct_card)
  finally show ?thesis .
qed

text \<open>
  Under the assumption stated in the loop of \<open>summary\<close>, that a contract is entered only
  once, and with every exit row closing a contract that has its entry row, there are as
  many matched round trips as exit rows.
\<close>

lemma matched_round_trips_eq_exits:
  assumes "list_all tag_readable entries" and "list_all tag_readable exits"
    and "distinct (map contract_1 entries)" and "distinct (map contract_1 exits)"
    and "contract_1 ` set exits \<subseteq> contract_1 ` set entries"
    and "match_loop entries entries exits [] = Inr costs"
  shows "length costs = length exits"
proof -
  from match_loop_costs [OF assms(1,1,2), of "[]"] assms(6)
  have "length costs = length (filter (\<lambda>r. contract_1 r \<in> contract_1 ` set exits) entries)"
    by auto
  also have "\<dots> = length (filter (\<lambda>c. c \<in> set (map contract_1 exits)) (map contract_1 entries))"
    by (simp add: filter_map o_def)
  also have "\<dots> = length (map contract_1 exits)"
    using assms(3,4,5) by (intro distinct_filter_count) simp_all
  finally show ?thesis by simp
qed

subsection \<open>Wins and losses\<close>

lemma np_sum_bool_map: "np_sum_bool (map P xs) = length (filter P xs)"
  by (induction xs) (simp_all add: np_sum_bool_def)






subsection \<open>A trade log without round trips\<close>

lemma summary_table_no_exits:
  assumes "list_all tag_readable df" and "list_all entry_tagged df"
  shows "summary_table init df capital = Inl ValueError"
proof -
  from assms(2) have "filter entry_tagged df = df" "filter (\<lambda>r. \<not> entry_tagged r) df = []"
    by (simp_all add: list_all_iff)
  with assms(1) have p: "partition_entries df = Inr (df, [])"
    by (simp add: partition_entries_def entries_mask_readable select_rows_map select_rows_map_not
        del: map_map)
  from match_loop_costs [OF assms(1,1), of "[]" "[]"]
  have "match_loop df df [] [] = Inr []" by auto
  with p show ?thesis
    by (simp add: summary_table_def)
qed

text \<open>
  Every trade log with at least one row and without an exit row makes \<open>summary\<close> raise
  \<open>ValueError\<close>: no contract is matched, and \<open>np.max\<close> is applied to the empty array.
\<close>

lemma summary_no_exits:
  assumes "trade_log bt = Some df" and "df \<noteq> []" and "bt_strategy bt = Some strat"
    and "list_all tag_readable df" and "list_all entry_tagged df"
  shows "snd (summary bt) = Inl ValueError"
proof -
  let ?capital = "capital_series (initial_capital strat) df"
  let ?df' = "map (\<lambda>(r, c). set_capital r c) (zip df ?capital)"
  from assms(1,2,3) have "snd (summary bt) = summary_table (initial_capital strat) ?df' ?capital"
    by (cases df) (simp_all add: summary_def Let_def)
  moreover from assms(4,5) have "list_all tag_readable ?df'" "list_all entry_tagged ?df'"
    by (auto simp: list_all_iff tag_readable_set_capital entry_tagged_set_capital
        dest!: set_zip_leftD)
  ultimately show ?thesis
    by (simp only: summary_table_no_exits)
qed

text \<open>
  Claim C7. A run that opens one position and closes none has no exit and no matched
  round trip; \<open>summary\<close> then raises \<open>ValueError\<close>, from \<open>np.max\<close> of the empty \<open>costs\<close>
  array (line 140), instead of returning a table with undefined entries. Without losses
  but with a matched round trip (scenario A) it returns the table, with an infinite
  profit factor.
\<close>

theorem summary_raises_without_round_trips:
  "run_then_summary (scripted_backtest 1000 scenario_open) False = Inl ValueError
   \<and> map_sum id profit_factor (run_then_summary (scripted_backtest 1000 scenario_A) False)
       = Inr PosInf"
  by (simp add: summary_defs engine_defs fixture_defs scenario_open_def scenario_A_def)

subsection \<open>The average daily return\<close>









end
